theory Spec2Isabelle
  imports Complex_Main
begin

section \<open>Strings: \<open>str.strip()\<close> and \<open>str.lower()\<close>\<close>

text \<open>
  The service normalises text with Python's \<open>s.strip().lower()\<close> (and pandas'
  \<open>.str.strip().str.lower()\<close>, which applies the same two methods to every cell).
  Strings are modelled as ASCII text: \<open>strip\<close> removes the ASCII characters for which
  \<open>str.isspace\<close> holds from both ends, \<open>lower\<close> maps \<open>A\<close>..\<open>Z\<close> to \<open>a\<close>..\<open>z\<close> and
  leaves every other character alone.
\<close>

definition whitespace :: "char list" where
  "whitespace = [CHR '' '', CHR 0x09, CHR 0x0A, CHR 0x0B, CHR 0x0C, CHR 0x0D,
                 CHR 0x1C, CHR 0x1D, CHR 0x1E, CHR 0x1F]"

definition isspace :: "char \<Rightarrow> bool" where
  "isspace c = (c \<in> set whitespace)"

definition lower_char :: "char \<Rightarrow> char" where
  "lower_char c =
     (case map_of (zip ''ABCDEFGHIJKLMNOPQRSTUVWXYZ'' ''abcdefghijklmnopqrstuvwxyz'') c of
        Some d \<Rightarrow> d
      | None \<Rightarrow> c)"

definition lower :: "string \<Rightarrow> string" where
  "lower s = map lower_char s"

definition lstrip :: "string \<Rightarrow> string" where
  "lstrip s = dropWhile isspace s"

definition rstrip :: "string \<Rightarrow> string" where
  "rstrip s = rev (dropWhile isspace (rev s))"

definition strip :: "string \<Rightarrow> string" where
  "strip s = rstrip (lstrip s)"

section \<open>The cache key\<close>

text \<open>
  \<^verbatim>\<open>
  def _cache_key(location, sensor, start_date, end_date):
      norm = lambda s: s.strip().lower() if isinstance(s, str) else None
      return (norm(location), norm(sensor), norm(start_date), norm(end_date))
  \<close>
  A parameter is \<open>Optional[str]\<close>: \<open>None\<close> when the request has no such parameter,
  \<open>Some s\<close> otherwise (\<open>s\<close> may be empty). The lambda \<open>norm\<close> is \<open>norm_key\<close> here.
\<close>

definition norm_key :: "string option \<Rightarrow> string option" where
  "norm_key s = (case s of Some t \<Rightarrow> Some (lower (strip t)) | None \<Rightarrow> None)"

type_synonym cache_key = "string option \<times> string option \<times> string option \<times> string option"

definition cache_key ::
  "string option \<Rightarrow> string option \<Rightarrow> string option \<Rightarrow> string option \<Rightarrow> cache_key" where
  "cache_key location sensor start_date end_date =
     (norm_key location, norm_key sensor, norm_key start_date, norm_key end_date)"

text \<open>
  Two spellings of one optional parameter that differ only in letter case and in the
  whitespace around the text: both absent, or both present with case-insensitively
  equal cores between arbitrary runs of whitespace.
\<close>

inductive respelled :: "string option \<Rightarrow> string option \<Rightarrow> bool" where
  absent: "respelled None None"
| present: "list_all isspace l \<Longrightarrow> list_all isspace r \<Longrightarrow> list_all isspace l' \<Longrightarrow>
     list_all isspace r' \<Longrightarrow> lower s = lower s' \<Longrightarrow>
     respelled (Some (l @ s @ r)) (Some (l' @ s' @ r'))"

section \<open>The data set\<close>

text \<open>
  \<open>pd.read_csv("sensors.csv")\<close> yields a frame: its column names and its rows. A cell
  of the four columns the service reads is the text of the field, or missing (an empty
  field, pandas' NaN). The library calls whose result depends on pandas' parsers are
  parameters of the model: \<open>pd.to_datetime(_, utc=True)\<close> on one string returns a UTC
  instant, returns NaT, or raises; \<open>pd.to_numeric\<close> on one string returns a number or
  fails. With \<open>errors="coerce"\<close> a failure becomes NaT or NaN, which \<open>dropna\<close> then
  removes. Instants are integers (time units since the epoch), values are reals.
\<close>

type_synonym instant = int

type_synonym cell = "string option"

datatype dt_result = Timestamp instant | NaT | ParseError

record raw_row =
  timestamp_cell :: cell
  location_cell :: cell
  sensor_cell :: cell
  value_cell :: cell

record source =
  columns :: "string list"
  rows :: "raw_row list"

record env =
  pd_to_datetime :: "string \<Rightarrow> dt_result"
  pd_to_numeric :: "string \<Rightarrow> real option"
  sensors_csv :: source

record reading =
  timestamp :: instant
  location_orig :: cell
  sensor_orig :: cell
  "value" :: real
  location_norm :: string
  sensor_norm :: string

datatype error = ValueError "string set"

definition required :: "string set" where
  "required = {''timestamp'', ''location'', ''sensor'', ''value''}"

text \<open>\<open>pd.to_datetime(column, errors="coerce", utc=True)\<close>, cell by cell.\<close>

definition to_datetime_coerce :: "env \<Rightarrow> cell \<Rightarrow> instant option" where
  "to_datetime_coerce e c =
     (case c of
        None \<Rightarrow> None
      | Some s \<Rightarrow> (case pd_to_datetime e s of Timestamp t \<Rightarrow> Some t | NaT \<Rightarrow> None | ParseError \<Rightarrow> None))"

text \<open>\<open>pd.to_numeric(column, errors="coerce")\<close>, cell by cell.\<close>

definition to_numeric_coerce :: "env \<Rightarrow> cell \<Rightarrow> real option" where
  "to_numeric_coerce e c = (case c of None \<Rightarrow> None | Some s \<Rightarrow> pd_to_numeric e s)"

text \<open>\<open>column.astype(str)\<close>: a missing cell becomes the text \<open>nan\<close>.\<close>

definition astype_str :: "cell \<Rightarrow> string" where
  "astype_str c = (case c of None \<Rightarrow> ''nan'' | Some s \<Rightarrow> s)"

text \<open>\<open>df.dropna(subset=[col])\<close> on a frame whose column \<open>col\<close> is the first component.\<close>

definition dropna :: "('a option \<times> 'b) list \<Rightarrow> ('a \<times> 'b) list" where
  "dropna df = concat (map (\<lambda>(c, r). case c of None \<Rightarrow> [] | Some v \<Rightarrow> [(v, r)]) df)"

text \<open>
  \<^verbatim>\<open>
  @lru_cache(maxsize=1)
  def load_data():
      df = pd.read_csv("sensors.csv")
      required = {"timestamp", "location", "sensor", "value"}
      missing = required - set(df.columns)
      if missing:
          raise ValueError(f"CSV missing columns: {missing}")
      df["timestamp"] = pd.to_datetime(df["timestamp"], errors="coerce", utc=True)
      df = df.dropna(subset=["timestamp"])
      df["location_norm"] = df["location"].astype(str).str.strip().str.lower()
      df["sensor_norm"] = df["sensor"].astype(str).str.strip().str.lower()
      df["value"] = pd.to_numeric(df["value"], errors="coerce")
      df = df.dropna(subset=["value"])
      return df
  \<close>
  The frame is threaded through the same six steps. \<open>lru_cache\<close> memoises the result;
  the model's \<open>load_data\<close> is a function of the environment, so calling it again gives
  the same table and the memo is not part of the state.
\<close>

definition load_data :: "env \<Rightarrow> error + reading list" where
  "load_data e =
     (let df = sensors_csv e;
          missing = required - set (columns df)
      in if missing \<noteq> {} then Inl (ValueError missing)
         else
           let df1 = map (\<lambda>r. (to_datetime_coerce e (timestamp_cell r), r)) (rows df);
               df2 = dropna df1;
               df3 = map (\<lambda>(t, r). (t, r, lower (strip (astype_str (location_cell r))))) df2;
               df4 = map (\<lambda>(t, r, ln). (t, r, ln, lower (strip (astype_str (sensor_cell r))))) df3;
               df5 = map (\<lambda>(t, r, ln, sn). (to_numeric_coerce e (value_cell r), t, r, ln, sn)) df4;
               df6 = dropna df5
           in Inr (map (\<lambda>(v, t, r, ln, sn).
                     \<lparr>timestamp = t, location_orig = location_cell r, sensor_orig = sensor_cell r,
                      value = v, location_norm = ln, sensor_norm = sn\<rparr>) df6))"

section \<open>The endpoint\<close>

text \<open>
  \<^verbatim>\<open>
  def _parse_iso(date_str):
      if not date_str:
          return None
      try:
          ts = pd.to_datetime(date_str, utc=True)
          if pd.isna(ts):
              return None
          return ts
      except Exception:
          return None
  \<close>
  \<open>not date_str\<close> holds of \<open>None\<close> and of the empty string.
\<close>

definition parse_iso :: "env \<Rightarrow> string option \<Rightarrow> instant option" where
  "parse_iso e date_str =
     (case date_str of
        None \<Rightarrow> None
      | Some s \<Rightarrow>
          if s = [] then None
          else (case pd_to_datetime e s of
                  ParseError \<Rightarrow> None
                | NaT \<Rightarrow> None
                | Timestamp ts \<Rightarrow> Some ts))"

record stats_obj =
  count :: nat
  avg :: "real option"
  min_value :: "real option"
  max_value :: "real option"

datatype payload = Payload (stats_of: stats_obj)

datatype x_cache = HIT | MISS

record response =
  content :: payload
  x_cache_header :: x_cache

type_synonym cache = "cache_key \<rightharpoonup> payload"

text \<open>
  The body of \<open>stats\<close> between the two accesses to the cache, in its two parts: the
  filter (\<open>flt\<close>) and the aggregate (\<open>stats_obj\<close>). \<open>if location:\<close> holds of a
  non-empty string only. The parameters \<open>location\<close> and \<open>sensor\<close> of the handler do not
  clash with the columns of a reading, which are \<open>location_orig\<close> and \<open>sensor_orig\<close>.
  \<^verbatim>\<open>
  flt = df
  if location:
      flt = flt[flt["location_norm"] == location.strip().lower()]
  if sensor:
      flt = flt[flt["sensor_norm"] == sensor.strip().lower()]
  start_ts = _parse_iso(start_date)
  end_ts = _parse_iso(end_date)
  if start_ts is not None:
      flt = flt[flt["timestamp"] >= start_ts]
  if end_ts is not None:
      flt = flt[flt["timestamp"] <= end_ts]
  \<close>
\<close>

definition filter_readings ::
  "env \<Rightarrow> reading list \<Rightarrow> string option \<Rightarrow> string option \<Rightarrow> string option \<Rightarrow> string option
     \<Rightarrow> reading list" where
  "filter_readings e df location sensor start_date end_date =
     (let flt = df;
          flt = (case location of
                   Some l \<Rightarrow> if l \<noteq> [] then filter (\<lambda>r. location_norm r = lower (strip l)) flt
                             else flt
                 | None \<Rightarrow> flt);
          flt = (case sensor of
                   Some s \<Rightarrow> if s \<noteq> [] then filter (\<lambda>r. sensor_norm r = lower (strip s)) flt
                             else flt
                 | None \<Rightarrow> flt);
          start_ts = parse_iso e start_date;
          end_ts = parse_iso e end_date;
          flt = (case start_ts of Some s \<Rightarrow> filter (\<lambda>r. timestamp r \<ge> s) flt | None \<Rightarrow> flt);
          flt = (case end_ts of Some t \<Rightarrow> filter (\<lambda>r. timestamp r \<le> t) flt | None \<Rightarrow> flt)
      in flt)"

text \<open>
  \<^verbatim>\<open>
  if flt.empty:
      stats_obj = {"count": 0, "avg": None, "min": None, "max": None}
  else:
      vals = flt["value"]
      stats_obj = {"count": int(vals.count()), "avg": float(vals.mean()),
                   "min": float(vals.min()), "max": float(vals.max())}
  \<close>
\<close>

definition compute_stats :: "reading list \<Rightarrow> stats_obj" where
  "compute_stats flt =
     (if flt = [] then \<lparr>count = 0, avg = None, min_value = None, max_value = None\<rparr>
      else
        let vals = map value flt
        in \<lparr>count = length vals,
            avg = Some (sum_list vals / real (length vals)),
            min_value = Some (Min (set vals)),
            max_value = Some (Max (set vals))\<rparr>)"

text \<open>
  \<^verbatim>\<open>
  def stats(response, location, sensor, start_date, end_date):
      key = _cache_key(location, sensor, start_date, end_date)
      with _lock:
          if key in _cache:
              payload = _cache[key]
              return JSONResponse(content=payload, headers={"X-Cache": "HIT"})
      df = load_data()
      ...
      payload = {"stats": stats_obj}
      with _lock:
          _cache[key] = payload
      return JSONResponse(content=payload, headers={"X-Cache": "MISS"})
  \<close>
  The global \<open>_cache\<close> is passed in and returned. An exception of \<open>load_data\<close> leaves
  the handler before the store, so the cache comes back unchanged with the error.
\<close>

definition stats ::
  "env \<Rightarrow> cache \<Rightarrow> string option \<Rightarrow> string option \<Rightarrow> string option \<Rightarrow> string option
     \<Rightarrow> (error + response) \<times> cache" where
  "stats e cache location sensor start_date end_date =
     (let key = cache_key location sensor start_date end_date
      in case cache key of
           Some payload \<Rightarrow> (Inr \<lparr>content = payload, x_cache_header = HIT\<rparr>, cache)
         | None \<Rightarrow>
             (case load_data e of
                Inl err \<Rightarrow> (Inl err, cache)
              | Inr df \<Rightarrow>
                  let flt = filter_readings e df location sensor start_date end_date;
                      stats_obj = compute_stats flt;
                      payload = Payload stats_obj
                  in (Inr \<lparr>content = payload, x_cache_header = MISS\<rparr>, cache(key \<mapsto> payload))))"

section \<open>A model of the two parsers on the forms the examples use\<close>

text \<open>
  The general theorems below hold for every environment, whatever its parsers return;
  the one about date-only bounds is about pandas' convention and says so. The examples
  need parsers that compute, so here is a fragment of each: it returns what
  pandas returns on the strings it accepts (ISO-8601 \<open>YYYY-MM-DD\<close> and
  \<open>YYYY-MM-DDTHH:MM:SS\<close> with no zone, \<open>Z\<close> or \<open>+HH:MM\<close>/\<open>-HH:MM\<close>; plain decimal
  numbers), with instants counted in seconds since 1970-01-01T00:00:00Z. A date
  with no time is midnight UTC of that day, as \<open>pd.to_datetime('2024-01-31', utc=True)\<close>
  is \<open>2024-01-31 00:00:00+00:00\<close>. On any other string the fragment reports a failure,
  which is no statement about pandas: the examples use strings on which the two agree.
\<close>

definition digit :: "char \<Rightarrow> nat option" where
  "digit c = map_of (zip ''0123456789'' [0, 1, 2, 3, 4, 5, 6, 7, 8, 9]) c"

fun digits :: "string \<Rightarrow> nat \<Rightarrow> nat option" where
  "digits [] n = Some n"
| "digits (c # cs) n = (case digit c of None \<Rightarrow> None | Some d \<Rightarrow> digits cs (10 * n + d))"

definition leap_year :: "nat \<Rightarrow> bool" where
  "leap_year y = (y mod 4 = 0 \<and> (y mod 100 \<noteq> 0 \<or> y mod 400 = 0))"

definition days_in_month :: "nat \<Rightarrow> nat \<Rightarrow> nat" where
  "days_in_month y m =
     (if m = 2 then (if leap_year y then 29 else 28)
      else if m = 4 \<or> m = 6 \<or> m = 9 \<or> m = 11 then 30 else 31)"

text \<open>Days from 1970-01-01 to the civil date \<open>y-m-d\<close> (proleptic Gregorian calendar).\<close>

definition days_from_civil :: "int \<Rightarrow> int \<Rightarrow> int \<Rightarrow> int" where
  "days_from_civil y m d =
     (let y' = (if m \<le> 2 then y - 1 else y);
          era = y' div 400;
          yoe = y' - era * 400;
          doy = (153 * (if m > 2 then m - 3 else m + 9) + 2) div 5 + d - 1;
          doe = yoe * 365 + yoe div 4 - yoe div 100 + doy
      in era * 146097 + doe - 719468)"

definition parse_date :: "string \<Rightarrow> int option" where
  "parse_date s =
     (if length s = 10 \<and> s ! 4 = CHR ''-'' \<and> s ! 7 = CHR ''-'' then
        (case (digits (take 4 s) 0, digits (take 2 (drop 5 s)) 0, digits (drop 8 s) 0) of
           (Some y, Some m, Some d) \<Rightarrow>
             if 1 \<le> m \<and> m \<le> 12 \<and> 1 \<le> d \<and> d \<le> days_in_month y m
             then Some (days_from_civil (int y) (int m) (int d)) else None
         | _ \<Rightarrow> None)
      else None)"

definition parse_time :: "string \<Rightarrow> int option" where
  "parse_time s =
     (if length s = 8 \<and> s ! 2 = CHR '':'' \<and> s ! 5 = CHR '':'' then
        (case (digits (take 2 s) 0, digits (take 2 (drop 3 s)) 0, digits (drop 6 s) 0) of
           (Some h, Some m, Some sec) \<Rightarrow>
             if h < 24 \<and> m < 60 \<and> sec < 60 then Some (int (3600 * h + 60 * m + sec)) else None
         | _ \<Rightarrow> None)
      else None)"

definition parse_zone :: "string \<Rightarrow> int option" where
  "parse_zone s =
     (if s = [] \<or> s = ''Z'' then Some 0
      else if length s = 6 \<and> (s ! 0 = CHR ''+'' \<or> s ! 0 = CHR ''-'') \<and> s ! 3 = CHR '':'' then
        (case (digits (take 2 (drop 1 s)) 0, digits (drop 4 s) 0) of
           (Some h, Some m) \<Rightarrow>
             if h < 24 \<and> m < 60
             then Some ((if s ! 0 = CHR ''-'' then - 1 else 1) * int (3600 * h + 60 * m))
             else None
         | _ \<Rightarrow> None)
      else None)"

definition iso_to_datetime :: "string \<Rightarrow> dt_result" where
  "iso_to_datetime s =
     (if length s = 10 then
        (case parse_date s of Some d \<Rightarrow> Timestamp (86400 * d) | None \<Rightarrow> ParseError)
      else if 19 \<le> length s \<and> s ! 10 = CHR ''T'' then
        (case (parse_date (take 10 s), parse_time (take 8 (drop 11 s)), parse_zone (drop 19 s)) of
           (Some d, Some t, Some z) \<Rightarrow> Timestamp (86400 * d + t - z)
         | _ \<Rightarrow> ParseError)
      else ParseError)"

fun fraction :: "string \<Rightarrow> real \<Rightarrow> real \<Rightarrow> real option" where
  "fraction [] scale acc = Some acc"
| "fraction (c # cs) scale acc =
     (case digit c of None \<Rightarrow> None | Some d \<Rightarrow> fraction cs (scale / 10) (acc + real d * scale / 10))"

definition unsigned_decimal :: "string \<Rightarrow> real option" where
  "unsigned_decimal s =
     (let ip = takeWhile (\<lambda>c. c \<noteq> CHR ''.'') s;
          rest = dropWhile (\<lambda>c. c \<noteq> CHR ''.'') s
      in if ip = [] then None
         else (case digits ip 0 of
                 None \<Rightarrow> None
               | Some n \<Rightarrow> (case rest of
                              [] \<Rightarrow> Some (real n)
                            | _ # fp \<Rightarrow> if fp = [] then None else fraction fp 1 (real n))))"

definition decimal_to_numeric :: "string \<Rightarrow> real option" where
  "decimal_to_numeric s =
     (case s of
        [] \<Rightarrow> None
      | c # cs \<Rightarrow> if c = CHR ''-'' then map_option uminus (unsigned_decimal cs)
                  else unsigned_decimal s)"

definition pandas :: "source \<Rightarrow> env" where
  "pandas src = \<lparr>pd_to_datetime = iso_to_datetime, pd_to_numeric = decimal_to_numeric,
                 sensors_csv = src\<rparr>"

section \<open>Requests in sequence\<close>

text \<open>
  The process starts with \<open>_cache = {}\<close> and handles one request after the other, each
  call of \<open>stats\<close> seeing the cache the previous one left.
\<close>

type_synonym request = "string option \<times> string option \<times> string option \<times> string option"

fun serve :: "env \<Rightarrow> cache \<Rightarrow> request list \<Rightarrow> (error + response) list \<times> cache" where
  "serve e cache [] = ([], cache)"
| "serve e cache ((location, sensor, start_date, end_date) # reqs) =
     (let (out, cache') = stats e cache location sensor start_date end_date;
          (outs, cache'') = serve e cache' reqs
      in (out # outs, cache''))"

section \<open>The specification's vocabulary\<close>

text \<open>
  The specification speaks of query criteria, each present or absent, and of a reading
  matching them: a reading matches iff every present criterion is satisfied, location
  and sensor by equality of the trimmed, case-folded texts, the time window inclusively
  at both ends. The handler treats a text parameter as present when it is a non-empty
  string, and a bound as present when \<open>_parse_iso\<close> returns an instant.
\<close>

record criteria =
  location_c :: "string option"
  sensor_c :: "string option"
  start_c :: "instant option"
  end_c :: "instant option"

definition text_criterion :: "string option \<Rightarrow> string option" where
  "text_criterion p =
     (case p of None \<Rightarrow> None | Some s \<Rightarrow> if s = [] then None else Some (lower (strip s)))"

definition criteria_of ::
  "env \<Rightarrow> string option \<Rightarrow> string option \<Rightarrow> string option \<Rightarrow> string option \<Rightarrow> criteria" where
  "criteria_of e location sensor start_date end_date =
     \<lparr>location_c = text_criterion location, sensor_c = text_criterion sensor,
      start_c = parse_iso e start_date, end_c = parse_iso e end_date\<rparr>"

definition matches :: "criteria \<Rightarrow> reading \<Rightarrow> bool" where
  "matches c r =
     ((case location_c c of None \<Rightarrow> True | Some l \<Rightarrow> location_norm r = l)
      \<and> (case sensor_c c of None \<Rightarrow> True | Some s \<Rightarrow> sensor_norm r = s)
      \<and> (case start_c c of None \<Rightarrow> True | Some a \<Rightarrow> a \<le> timestamp r)
      \<and> (case end_c c of None \<Rightarrow> True | Some b \<Rightarrow> timestamp r \<le> b))"

text \<open>
  A source row is excluded by the load when its timestamp does not parse or its value
  is not numeric; \<open>load_row\<close> is what the load makes of a row that is kept.
\<close>

definition excluded :: "env \<Rightarrow> raw_row \<Rightarrow> bool" where
  "excluded e r =
     (to_datetime_coerce e (timestamp_cell r) = None \<or> to_numeric_coerce e (value_cell r) = None)"

definition load_row :: "env \<Rightarrow> raw_row \<Rightarrow> reading option" where
  "load_row e r =
     (case to_datetime_coerce e (timestamp_cell r) of
        None \<Rightarrow> None
      | Some t \<Rightarrow>
          (case to_numeric_coerce e (value_cell r) of
             None \<Rightarrow> None
           | Some v \<Rightarrow>
               Some \<lparr>timestamp = t, location_orig = location_cell r, sensor_orig = sensor_cell r,
                     value = v,
                     location_norm = lower (strip (astype_str (location_cell r))),
                     sensor_norm = lower (strip (astype_str (sensor_cell r)))\<rparr>))"

section \<open>Example data\<close>

definition row :: "string \<Rightarrow> string \<Rightarrow> string \<Rightarrow> string \<Rightarrow> raw_row" where
  "row t l s v =
     \<lparr>timestamp_cell = Some t, location_cell = Some l, sensor_cell = Some s, value_cell = Some v\<rparr>"

definition sensors :: source where
  "sensors =
     \<lparr>columns = [''timestamp'', ''location'', ''sensor'', ''value''],
      rows = [row ''2024-01-01T00:00:00Z'' ''Building A'' ''temp'' ''10'',
              row ''2024-01-15T12:00:00Z'' ''Building A'' ''temp'' ''20'',
              row ''2024-01-31T00:00:00Z'' '' building a'' ''Temp '' ''30'',
              row ''2024-01-31T12:00:00Z'' ''Building B'' ''temp'' ''55.5'',
              row ''not-a-date'' ''Building A'' ''temp'' ''1'',
              row ''2024-01-20T00:00:00Z'' ''Building A'' ''temp'' ''abc'',
              row ''2024-02-01T00:00:00Z'' '' '' ''humidity'' ''40'']\<rparr>"

definition sensors_no_value :: source where
  "sensors_no_value =
     \<lparr>columns = [''timestamp'', ''location'', ''sensor''],
      rows = [\<lparr>timestamp_cell = Some ''2024-01-01T00:00:00Z'', location_cell = Some ''Building A'',
               sensor_cell = Some ''temp'', value_cell = None\<rparr>]\<rparr>"

text \<open>The table \<open>load_data\<close> makes of \<open>sensors\<close>: rows five and six are dropped.\<close>

definition rd :: "instant \<Rightarrow> string \<Rightarrow> string \<Rightarrow> real \<Rightarrow> string \<Rightarrow> string \<Rightarrow> reading" where
  "rd t l s v l_norm s_norm =
     \<lparr>timestamp = t, location_orig = Some l, sensor_orig = Some s, value = v,
      location_norm = l_norm, sensor_norm = s_norm\<rparr>"

definition sensors_table :: "reading list" where
  "sensors_table =
     [rd 1704067200 ''Building A'' ''temp'' 10 ''building a'' ''temp'',
      rd 1705320000 ''Building A'' ''temp'' 20 ''building a'' ''temp'',
      rd 1706659200 '' building a'' ''Temp '' 30 ''building a'' ''temp'',
      rd 1706702400 ''Building B'' ''temp'' 55.5 ''building b'' ''temp'',
      rd 1706745600 '' '' ''humidity'' 40 [] ''humidity'']"

section \<open>Properties of \<open>strip\<close> and \<open>lower\<close>\<close>

lemma lower_char_cases:
  "lower_char c = c \<or>
   (c \<in> set ''ABCDEFGHIJKLMNOPQRSTUVWXYZ'' \<and> lower_char c \<in> set ''abcdefghijklmnopqrstuvwxyz'')"
  unfolding lower_char_def
  by (auto split: option.splits if_splits)

lemma isspace_lower_char: "isspace (lower_char c) = isspace c"
proof -
  have a: "\<not> isspace x" if "x \<in> set ''ABCDEFGHIJKLMNOPQRSTUVWXYZ''" for x
    using that by (auto simp: isspace_def whitespace_def)
  have b: "\<not> isspace x" if "x \<in> set ''abcdefghijklmnopqrstuvwxyz''" for x
    using that by (auto simp: isspace_def whitespace_def)
  from lower_char_cases[of c] show ?thesis using a b by metis
qed

lemma lstrip_lower: "lstrip (lower s) = lower (lstrip s)"
  by (simp add: lstrip_def lower_def dropWhile_map comp_def isspace_lower_char)

lemma rstrip_lower: "rstrip (lower s) = lower (rstrip s)"
  by (simp add: rstrip_def lower_def dropWhile_map comp_def isspace_lower_char rev_map)

lemma strip_lower: "strip (lower s) = lower (strip s)"
  by (simp add: strip_def lstrip_lower rstrip_lower)

lemma lstrip_pad: "list_all isspace l \<Longrightarrow> lstrip (l @ s) = lstrip s"
  by (simp add: lstrip_def list_all_iff)

lemma rstrip_pad: "list_all isspace r \<Longrightarrow> rstrip (s @ r) = rstrip s"
  using dropWhile_append2[of "rev r" isspace "rev s"]
  by (simp add: rstrip_def list_all_iff)

lemma lstrip_all_space: "list_all isspace s \<Longrightarrow> lstrip s = []"
  by (simp add: lstrip_def list_all_iff)

lemma strip_pad_right: "list_all isspace r \<Longrightarrow> strip (s @ r) = strip s"
proof (cases "list_all isspace s")
  case True
  assume r: "list_all isspace r"
  with True have "list_all isspace (s @ r)" by simp
  then show ?thesis using True by (simp add: strip_def lstrip_all_space del: list_all_append)
next
  case False
  assume r: "list_all isspace r"
  from False obtain x where "x \<in> set s" "\<not> isspace x" by (auto simp: list_all_iff)
  then have "lstrip (s @ r) = lstrip s @ r"
    by (simp add: lstrip_def)
  then show ?thesis using r by (simp add: strip_def rstrip_pad)
qed

lemma strip_pad: "list_all isspace l \<Longrightarrow> list_all isspace r \<Longrightarrow> strip (l @ s @ r) = strip s"
proof -
  assume l: "list_all isspace l" and r: "list_all isspace r"
  have "strip (l @ s @ r) = strip (s @ r)"
    using l by (simp add: strip_def lstrip_pad)
  then show ?thesis using r by (simp add: strip_pad_right)
qed

lemma strip_decompose:
  "\<exists>l r. list_all isspace l \<and> list_all isspace r \<and> s = l @ strip s @ r"
proof -
  let ?l = "takeWhile isspace s"
  let ?m = "lstrip s"
  let ?r = "rev (takeWhile isspace (rev ?m))"
  have 1: "s = ?l @ ?m" by (simp add: lstrip_def)
  have "rev (takeWhile isspace (rev ?m) @ dropWhile isspace (rev ?m)) = rev (rev ?m)"
    by (simp only: takeWhile_dropWhile_id)
  then have "rev (dropWhile isspace (rev ?m)) @ ?r = ?m"
    by (simp only: rev_append rev_rev_ident)
  then have 2: "?m = strip s @ ?r" by (simp add: strip_def rstrip_def)
  have 3: "list_all isspace ?l" by (simp add: list_all_iff) (meson set_takeWhileD)
  have 4: "list_all isspace ?r" by (simp add: list_all_iff) (meson set_takeWhileD)
  from 1 2 have "s = ?l @ strip s @ ?r" by simp
  with 3 4 show ?thesis by blast
qed

lemma norm_key_respelled: "respelled a b \<Longrightarrow> norm_key a = norm_key b"
proof (induction rule: respelled.induct)
  case absent
  show ?case by simp
next
  case (present l r l' r' s s')
  have "lower (strip s) = lower (strip s')"
    using present(5) by (metis strip_lower)
  then show ?case using present(1-4) by (simp add: norm_key_def strip_pad)
qed

lemma respelled_norm_key: "norm_key a = norm_key b \<Longrightarrow> respelled a b"
proof (cases a; cases b)
  fix s t assume ab: "a = Some s" "b = Some t" and eq: "norm_key a = norm_key b"
  obtain l r where s: "list_all isspace l" "list_all isspace r" "s = l @ strip s @ r"
    using strip_decompose[of s] by blast
  obtain l' r' where t: "list_all isspace l'" "list_all isspace r'" "t = l' @ strip t @ r'"
    using strip_decompose[of t] by blast
  from eq ab have "lower (strip s) = lower (strip t)" by (simp add: norm_key_def)
  then have "respelled (Some (l @ strip s @ r)) (Some (l' @ strip t @ r'))"
    using s(1,2) t(1,2) by (intro respelled.present)
  then show ?thesis using s(3) t(3) ab by simp
qed (auto simp: norm_key_def intro: respelled.absent)

section \<open>The load, row by row\<close>

lemma dropna_Nil: "dropna [] = []"
  by (simp add: dropna_def)

lemma dropna_Cons:
  "dropna ((c, r) # df) = (case c of None \<Rightarrow> dropna df | Some v \<Rightarrow> (v, r) # dropna df)"
  by (simp add: dropna_def split: option.splits)

lemma load_frame_rowwise:
  "map (\<lambda>(v, t, r, ln, sn).
          \<lparr>timestamp = t, location_orig = location_cell r, sensor_orig = sensor_cell r,
           value = v, location_norm = ln, sensor_norm = sn\<rparr>)
     (dropna
       (map (\<lambda>(t, r, ln, sn). (to_numeric_coerce e (value_cell r), t, r, ln, sn))
         (map (\<lambda>(t, r, ln). (t, r, ln, lower (strip (astype_str (sensor_cell r)))))
           (map (\<lambda>(t, r). (t, r, lower (strip (astype_str (location_cell r)))))
             (dropna (map (\<lambda>r. (to_datetime_coerce e (timestamp_cell r), r)) rs))))))
   = List.map_filter (load_row e) rs"
proof (induction rs)
  case Nil
  show ?case by (simp add: dropna_Nil List.map_filter_simps)
next
  case (Cons r rs)
  show ?case
  proof (cases "to_datetime_coerce e (timestamp_cell r)")
    case None
    then show ?thesis using Cons
      by (simp add: dropna_Cons load_row_def List.map_filter_simps)
  next
    case (Some t)
    then show ?thesis using Cons
      by (cases "to_numeric_coerce e (value_cell r)")
         (simp_all add: dropna_Cons load_row_def List.map_filter_simps)
  qed
qed

lemma load_data_rowwise:
  "load_data e =
     (if required \<subseteq> set (columns (sensors_csv e))
      then Inr (List.map_filter (load_row e) (rows (sensors_csv e)))
      else Inl (ValueError (required - set (columns (sensors_csv e)))))"
  unfolding load_data_def Let_def load_frame_rowwise by simp

lemma load_row_None_iff: "load_row e r = None \<longleftrightarrow> excluded e r"
  by (simp add: load_row_def excluded_def split: option.splits)

lemma map_filter_drop_None:
  "List.map_filter f (filter (\<lambda>x. f x \<noteq> None) xs) = List.map_filter f xs"
  by (induction xs) (auto simp: List.map_filter_simps split: option.splits)

lemma length_map_filter:
  "length (List.map_filter f xs) + length (filter (\<lambda>x. f x = None) xs) = length xs"
  by (induction xs) (auto simp: List.map_filter_simps split: option.splits)

lemma set_map_filter: "y \<in> set (List.map_filter f xs) \<longleftrightarrow> (\<exists>x \<in> set xs. f x = Some y)"
  by (induction xs) (auto simp: List.map_filter_simps split: option.splits)

lemma load_row_Some:
  assumes "load_row e r = Some x"
  shows "\<exists>s v. timestamp_cell r = Some s \<and> pd_to_datetime e s = Timestamp (timestamp x)
               \<and> value_cell r = Some v \<and> pd_to_numeric e v = Some (value x)"
proof -
  from assms obtain t w where
    t: "to_datetime_coerce e (timestamp_cell r) = Some t" and
    w: "to_numeric_coerce e (value_cell r) = Some w" and
    x: "timestamp x = t" "value x = w"
    by (auto simp: load_row_def split: option.splits)
  from t obtain s where "timestamp_cell r = Some s" "pd_to_datetime e s = Timestamp t"
    by (auto simp: to_datetime_coerce_def split: option.splits dt_result.splits)
  moreover from w obtain v where "value_cell r = Some v" "pd_to_numeric e v = Some w"
    by (auto simp: to_numeric_coerce_def split: option.splits)
  ultimately show ?thesis using x by blast
qed

lemma load_data_norm_columns:
  assumes "load_data e = Inr df" and "x \<in> set df"
  shows "location_norm x = lower (strip (astype_str (location_orig x)))"
    and "sensor_norm x = lower (strip (astype_str (sensor_orig x)))"
proof -
  from assms(1) have "df = List.map_filter (load_row e) (rows (sensors_csv e))"
    by (simp add: load_data_rowwise split: if_splits)
  with assms(2) have "x \<in> set (List.map_filter (load_row e) (rows (sensors_csv e)))"
    by simp
  then obtain r where "load_row e r = Some x"
    unfolding set_map_filter by blast
  then have "x = \<lparr>timestamp = timestamp x, location_orig = location_cell r,
                  sensor_orig = sensor_cell r, value = value x,
                  location_norm = lower (strip (astype_str (location_cell r))),
                  sensor_norm = lower (strip (astype_str (sensor_cell r)))\<rparr>"
    by (auto simp: load_row_def split: option.splits)
  then have "location_orig x = location_cell r
               \<and> location_norm x = lower (strip (astype_str (location_cell r)))
               \<and> sensor_orig x = sensor_cell r
               \<and> sensor_norm x = lower (strip (astype_str (sensor_cell r)))"
    by (metis reading.select_convs(2,3,5,6))
  then show "location_norm x = lower (strip (astype_str (location_orig x)))"
    and "sensor_norm x = lower (strip (astype_str (sensor_orig x)))"
    by simp_all
qed

section \<open>The handler, case by case\<close>

lemma stats_hit:
  "cache (cache_key location sensor start_date end_date) = Some p \<Longrightarrow>
   stats e cache location sensor start_date end_date
     = (Inr \<lparr>content = p, x_cache_header = HIT\<rparr>, cache)"
  by (simp add: stats_def)

lemma stats_miss:
  "cache (cache_key location sensor start_date end_date) = None \<Longrightarrow> load_data e = Inr df \<Longrightarrow>
   stats e cache location sensor start_date end_date
     = (Inr \<lparr>content = Payload (compute_stats
                                    (filter_readings e df location sensor start_date end_date)),
             x_cache_header = MISS\<rparr>,
        cache(cache_key location sensor start_date end_date
                \<mapsto> Payload (compute_stats
                             (filter_readings e df location sensor start_date end_date))))"
  by (simp add: stats_def Let_def)

lemma stats_miss_error:
  "cache (cache_key location sensor start_date end_date) = None \<Longrightarrow> load_data e = Inl err \<Longrightarrow>
   stats e cache location sensor start_date end_date = (Inl err, cache)"
  by (simp add: stats_def)

text \<open>The four filters applied in sequence keep the readings that match all criteria.\<close>

lemma filter_readings_matches:
  "filter_readings e df location sensor start_date end_date
     = filter (matches (criteria_of e location sensor start_date end_date)) df"
  by (auto simp add: filter_readings_def criteria_of_def matches_def text_criterion_def Let_def
      split: option.splits intro!: filter_cong)

lemma compute_stats_count: "count (compute_stats flt) = length flt"
  by (simp add: compute_stats_def Let_def)

lemma compute_stats_empty:
  "compute_stats [] = \<lparr>count = 0, avg = None, min_value = None, max_value = None\<rparr>"
  by (simp add: compute_stats_def)

lemma compute_stats_nonempty:
  assumes "flt \<noteq> []"
  shows "avg (compute_stats flt) = Some (sum_list (map value flt) / real (length flt))"
    and "\<exists>lo. min_value (compute_stats flt) = Some lo \<and> lo \<in> set (map value flt)
              \<and> (\<forall>v \<in> set (map value flt). lo \<le> v)"
    and "\<exists>hi. max_value (compute_stats flt) = Some hi \<and> hi \<in> set (map value flt)
              \<and> (\<forall>v \<in> set (map value flt). v \<le> hi)"
proof -
  let ?vals = "map value flt"
  have fin: "finite (set ?vals)" and ne: "set ?vals \<noteq> {}"
    using assms by simp_all
  show "avg (compute_stats flt) = Some (sum_list ?vals / real (length flt))"
    using assms by (simp add: compute_stats_def Let_def)
  have "min_value (compute_stats flt) = Some (Min (set ?vals))"
    using assms by (simp add: compute_stats_def Let_def)
  moreover have "Min (set ?vals) \<in> set ?vals" using fin ne by (rule Min_in)
  moreover have "\<forall>v \<in> set ?vals. Min (set ?vals) \<le> v" using fin by (simp del: set_map)
  ultimately show "\<exists>lo. min_value (compute_stats flt) = Some lo \<and> lo \<in> set ?vals
              \<and> (\<forall>v \<in> set ?vals. lo \<le> v)" by blast
  have "max_value (compute_stats flt) = Some (Max (set ?vals))"
    using assms by (simp add: compute_stats_def Let_def)
  moreover have "Max (set ?vals) \<in> set ?vals" using fin ne by (rule Max_in)
  moreover have "\<forall>v \<in> set ?vals. v \<le> Max (set ?vals)" using fin by (simp del: set_map)
  ultimately show "\<exists>hi. max_value (compute_stats flt) = Some hi \<and> hi \<in> set ?vals
              \<and> (\<forall>v \<in> set ?vals. v \<le> hi)" by blast
qed

lemma parse_iso_unparseable:
  "\<forall>t. pd_to_datetime e s \<noteq> Timestamp t \<Longrightarrow> parse_iso e (Some s) = None"
  by (cases "pd_to_datetime e s") (simp_all add: parse_iso_def)

lemma filter_readings_bounds:
  "filter_readings e df location sensor start_date end_date
     = filter (\<lambda>r. (case parse_iso e start_date of None \<Rightarrow> True | Some a \<Rightarrow> a \<le> timestamp r)
                  \<and> (case parse_iso e end_date of None \<Rightarrow> True | Some b \<Rightarrow> timestamp r \<le> b))
         (filter_readings e df location sensor None None)"
  by (auto simp add: filter_readings_def parse_iso_def Let_def
      split: option.splits intro!: filter_cong)

section \<open>The example data, evaluated\<close>

lemma iso_examples:
  "iso_to_datetime ''2024-01-01T00:00:00Z'' = Timestamp 1704067200"
  "iso_to_datetime ''2024-01-15T12:00:00Z'' = Timestamp 1705320000"
  "iso_to_datetime ''2024-01-31T00:00:00Z'' = Timestamp 1706659200"
  "iso_to_datetime ''2024-01-31T12:00:00Z'' = Timestamp 1706702400"
  "iso_to_datetime ''2024-01-20T00:00:00Z'' = Timestamp 1705708800"
  "iso_to_datetime ''2024-02-01T00:00:00Z'' = Timestamp 1706745600"
  "iso_to_datetime ''2024-01-01'' = Timestamp 1704067200"
  "iso_to_datetime ''2024-01-31'' = Timestamp 1706659200"
  "iso_to_datetime ''not-a-date'' = ParseError"
  by (simp_all add: iso_to_datetime_def parse_date_def parse_time_def parse_zone_def digit_def
      days_in_month_def leap_year_def days_from_civil_def)

lemma decimal_examples:
  "decimal_to_numeric ''10'' = Some 10"
  "decimal_to_numeric ''20'' = Some 20"
  "decimal_to_numeric ''30'' = Some 30"
  "decimal_to_numeric ''55.5'' = Some 55.5"
  "decimal_to_numeric ''1'' = Some 1"
  "decimal_to_numeric ''40'' = Some 40"
  "decimal_to_numeric ''abc'' = None"
  by (simp_all add: decimal_to_numeric_def unsigned_decimal_def digit_def)

lemma norm_examples:
  "lower (strip ''Building A'') = ''building a''"
  "lower (strip '' building a'') = ''building a''"
  "lower (strip ''building a  '') = ''building a''"
  "lower (strip ''Building B'') = ''building b''"
  "lower (strip '' '') = []"
  "lower (strip []) = []"
  "lower (strip ''temp'') = ''temp''"
  "lower (strip ''Temp '') = ''temp''"
  "lower (strip ''TEMP'') = ''temp''"
  "lower (strip ''humidity'') = ''humidity''"
  by code_simp+

lemma load_sensors: "load_data (pandas sensors) = Inr sensors_table"
proof -
  have c: "required \<subseteq> set (columns (sensors_csv (pandas sensors)))"
    by code_simp
  have r: "List.map_filter (load_row (pandas sensors)) (rows (sensors_csv (pandas sensors)))
             = sensors_table"
    by (simp add: pandas_def sensors_def row_def rd_def sensors_table_def load_row_def
        List.map_filter_simps to_datetime_coerce_def to_numeric_coerce_def astype_str_def
        iso_examples decimal_examples norm_examples)
  show ?thesis using c r by (simp add: load_data_rowwise)
qed

section \<open>Claims about the cache key\<close>

text \<open>
  C1, as amended. Two requests get the same cache key exactly when each parameter of
  the one is a respelling of the same parameter of the other: both absent, or the same
  text up to letter case and surrounding whitespace. \<open>start_date\<close> and \<open>end_date\<close>
  enter the key as text, like \<open>location\<close> and \<open>sensor\<close>; they are not parsed.
\<close>

theorem cache_key_eq_iff_respelled:
  "cache_key location sensor start_date end_date
     = cache_key location' sensor' start_date' end_date'
   \<longleftrightarrow> respelled location location' \<and> respelled sensor sensor'
       \<and> respelled start_date start_date' \<and> respelled end_date end_date'"
proof -
  have "norm_key a = norm_key b \<longleftrightarrow> respelled a b" for a b
    using norm_key_respelled respelled_norm_key by blast
  then show ?thesis by (simp add: cache_key_def)
qed

theorem cache_key_eq_iff_respelled_witness:
  "respelled (Some ''Building A'') (Some ''building a  '') \<and> respelled None None
   \<and> respelled (Some ''2024-01-01T00:00:00Z'') (Some '' 2024-01-01t00:00:00z'')
   \<and> cache_key (Some ''Building A'') None (Some ''2024-01-01T00:00:00Z'') None
     = cache_key (Some ''building a  '') None (Some '' 2024-01-01t00:00:00z'') None"
proof -
  have k: "cache_key (Some ''Building A'') None (Some ''2024-01-01T00:00:00Z'') None
     = cache_key (Some ''building a  '') None (Some '' 2024-01-01t00:00:00z'') None"
    by code_simp
  from k show ?thesis
    using cache_key_eq_iff_respelled
      [of "Some ''Building A''" None "Some ''2024-01-01T00:00:00Z''" None
          "Some ''building a  ''" None "Some '' 2024-01-01t00:00:00z''" None]
    by blast
qed

text \<open>
  C1 as stated fails: \<open>2024-01-01T00:00:00Z\<close> and \<open>2024-01-01T00:00:00+00:00\<close> parse to
  the same instant, and the two requests have different cache keys.
\<close>

theorem cache_key_iso_spellings_differ:
  "parse_iso (pandas sensors) (Some ''2024-01-01T00:00:00Z'')
     = Some 1704067200
   \<and> parse_iso (pandas sensors) (Some ''2024-01-01T00:00:00+00:00'')
     = Some 1704067200
   \<and> cache_key None None (Some ''2024-01-01T00:00:00Z'') None
     \<noteq> cache_key None None (Some ''2024-01-01T00:00:00+00:00'') None"
proof -
  have a: "iso_to_datetime ''2024-01-01T00:00:00Z'' = Timestamp 1704067200"
    by code_simp
  have b: "iso_to_datetime ''2024-01-01T00:00:00+00:00'' = Timestamp 1704067200"
    by code_simp
  have c: "norm_key (Some ''2024-01-01T00:00:00Z'')
             \<noteq> norm_key (Some ''2024-01-01T00:00:00+00:00'')"
    by code_simp
  show ?thesis using a b c by (simp add: parse_iso_def pandas_def cache_key_def)
qed

section \<open>Claims about the query engine\<close>

text \<open>
  C2. The stats the handler computes for a query are the aggregate of the matching
  readings: \<open>count\<close> is the number of readings that satisfy every present criterion
  (the columns \<open>location_norm\<close> and \<open>sensor_norm\<close> they are compared on are the trimmed,
  case-folded location and sensor of a loaded reading); when it is zero, \<open>avg\<close>, \<open>min\<close> and \<open>max\<close> are absent; otherwise \<open>avg\<close> is the
  arithmetic mean of the matching values and \<open>min\<close> and \<open>max\<close> are their least and
  greatest. They are what the handler returns whenever it computes, that is when the
  table loads and the key is not cached. Values are reals here: the rounding of
  floating point is not modelled.
\<close>

theorem stats_aggregates_matching_readings:
  "let m = filter (matches (criteria_of e location sensor start_date end_date)) df;
       vals = map value m;
       st = compute_stats (filter_readings e df location sensor start_date end_date)
   in (load_data e = Inr df \<longrightarrow>
         (\<forall>r \<in> set df. location_norm r = lower (strip (astype_str (location_orig r)))
                        \<and> sensor_norm r = lower (strip (astype_str (sensor_orig r))))
         \<and> (cache (cache_key location sensor start_date end_date) = None \<longrightarrow>
               fst (stats e cache location sensor start_date end_date)
                 = Inr \<lparr>content = Payload st, x_cache_header = MISS\<rparr>))
      \<and> count st = length m
      \<and> (count st = 0 \<longrightarrow> avg st = None \<and> min_value st = None \<and> max_value st = None)
      \<and> (count st \<noteq> 0 \<longrightarrow>
            avg st = Some (sum_list vals / real (length vals))
            \<and> (\<exists>lo hi. min_value st = Some lo \<and> max_value st = Some hi
                  \<and> lo \<in> set vals \<and> hi \<in> set vals
                  \<and> (\<forall>v \<in> set vals. lo \<le> v \<and> v \<le> hi)))"
proof -
  let ?m = "filter (matches (criteria_of e location sensor start_date end_date)) df"
  let ?st = "compute_stats (filter_readings e df location sensor start_date end_date)"
  have st: "?st = compute_stats ?m" by (simp add: filter_readings_matches)
  have run: "load_data e = Inr df \<longrightarrow>
         (\<forall>r \<in> set df. location_norm r = lower (strip (astype_str (location_orig r)))
                        \<and> sensor_norm r = lower (strip (astype_str (sensor_orig r))))
         \<and> (cache (cache_key location sensor start_date end_date) = None \<longrightarrow>
               fst (stats e cache location sensor start_date end_date)
                 = Inr \<lparr>content = Payload ?st, x_cache_header = MISS\<rparr>)"
    using stats_miss[where cache = cache and e = e and df = df]
      load_data_norm_columns[where e = e and df = df]
    by simp
  have c: "count ?st = length ?m" unfolding st by (rule compute_stats_count)
  have z: "count ?st = 0 \<longrightarrow> avg ?st = None \<and> min_value ?st = None \<and> max_value ?st = None"
    using c unfolding st by (simp add: compute_stats_def)
  have n: "count ?st \<noteq> 0 \<longrightarrow>
             avg ?st = Some (sum_list (map value ?m) / real (length (map value ?m)))
             \<and> (\<exists>lo hi. min_value ?st = Some lo \<and> max_value ?st = Some hi
                   \<and> lo \<in> set (map value ?m) \<and> hi \<in> set (map value ?m)
                   \<and> (\<forall>v \<in> set (map value ?m). lo \<le> v \<and> v \<le> hi))"
  proof
    assume "count ?st \<noteq> 0"
    then have ne: "?m \<noteq> []" using c by auto
    from compute_stats_nonempty(2)[OF ne] obtain lo where
      lo: "min_value ?st = Some lo" "lo \<in> set (map value ?m)" "\<forall>v \<in> set (map value ?m). lo \<le> v"
      unfolding st by blast
    from compute_stats_nonempty(3)[OF ne] obtain hi where
      hi: "max_value ?st = Some hi" "hi \<in> set (map value ?m)" "\<forall>v \<in> set (map value ?m). v \<le> hi"
      unfolding st by blast
    have a: "avg ?st = Some (sum_list (map value ?m) / real (length (map value ?m)))"
      using compute_stats_nonempty(1)[OF ne] unfolding st by simp
    from lo hi a show "avg ?st = Some (sum_list (map value ?m) / real (length (map value ?m)))
             \<and> (\<exists>lo hi. min_value ?st = Some lo \<and> max_value ?st = Some hi
                   \<and> lo \<in> set (map value ?m) \<and> hi \<in> set (map value ?m)
                   \<and> (\<forall>v \<in> set (map value ?m). lo \<le> v \<and> v \<le> hi))"
      by blast
  qed
  from run c z n show ?thesis unfolding Let_def by blast
qed

theorem stats_aggregates_matching_readings_witness:
  "load_data (pandas sensors) = Inr sensors_table
   \<and> Map.empty (cache_key None (Some ''temp'') (Some ''2024-01-01'') (Some ''2024-01-31'')) = None
   \<and> map value (filter (matches (criteria_of (pandas sensors) None (Some ''temp'')
                                   (Some ''2024-01-01'') (Some ''2024-01-31'')))
                  sensors_table) = [10, 20, 30]
   \<and> fst (stats (pandas sensors) Map.empty None (Some ''temp'') (Some ''2024-01-01'')
            (Some ''2024-01-31''))
       = Inr \<lparr>content = Payload \<lparr>count = 3, avg = Some 20, min_value = Some 10,
                                  max_value = Some 30\<rparr>,
              x_cache_header = MISS\<rparr>"
proof -
  let ?e = "pandas sensors"
  let ?m = "filter (matches (criteria_of ?e None (Some ''temp'') (Some ''2024-01-01'')
                      (Some ''2024-01-31''))) sensors_table"
  let ?st = "compute_stats (filter_readings ?e sensors_table None (Some ''temp'')
                              (Some ''2024-01-01'') (Some ''2024-01-31''))"
  have k: "Map.empty (cache_key None (Some ''temp'') (Some ''2024-01-01'') (Some ''2024-01-31''))
             = None"
    by simp
  have crit: "criteria_of ?e None (Some ''temp'') (Some ''2024-01-01'') (Some ''2024-01-31'')
     = \<lparr>location_c = None, sensor_c = Some ''temp'', start_c = Some 1704067200,
        end_c = Some 1706659200\<rparr>"
    by (simp add: criteria_of_def text_criterion_def parse_iso_def pandas_def iso_examples
        norm_examples)
  have vals: "map value ?m = [10, 20, 30]"
    unfolding crit by (simp add: sensors_table_def rd_def matches_def)
  have len: "length ?m = 3"
    using arg_cong[OF vals, of length] by simp
  from stats_aggregates_matching_readings
         [of ?e None "Some ''temp''" "Some ''2024-01-01''" "Some ''2024-01-31''" sensors_table
             Map.empty]
  have run: "fst (stats ?e Map.empty None (Some ''temp'') (Some ''2024-01-01'')
                    (Some ''2024-01-31''))
               = Inr \<lparr>content = Payload ?st, x_cache_header = MISS\<rparr>"
    and c: "count ?st = length ?m"
    and n: "count ?st \<noteq> 0 \<longrightarrow>
              avg ?st = Some (sum_list (map value ?m) / real (length (map value ?m)))
              \<and> (\<exists>lo hi. min_value ?st = Some lo \<and> max_value ?st = Some hi
                    \<and> lo \<in> set (map value ?m) \<and> hi \<in> set (map value ?m)
                    \<and> (\<forall>v \<in> set (map value ?m). lo \<le> v \<and> v \<le> hi))"
    unfolding Let_def using load_sensors k by blast+
  have c3: "count ?st = 3" using c len by simp
  with n vals have a: "avg ?st = Some 20" by simp
  from n c3 vals obtain lo hi where
    lh: "min_value ?st = Some lo" "max_value ?st = Some hi"
        "lo \<in> set [10, 20, 30]" "hi \<in> set [10, 20, 30]"
        "\<forall>v \<in> set [10, 20, 30 :: real]. lo \<le> v \<and> v \<le> hi"
    by auto
  from lh(3,5) have "lo = 10" by auto
  moreover from lh(4,5) have "hi = 30" by auto
  ultimately have "?st = \<lparr>count = 3, avg = Some 20, min_value = Some 10, max_value = Some 30\<rparr>"
    using c3 a lh(1,2) by (cases ?st) simp
  with run load_sensors k vals show ?thesis by simp
qed

text \<open>
  C3. A query whose key is not cached is answered with \<open>X-Cache: MISS\<close> and its result
  stored under the key; the next query with the same key, however its parameters are
  spelled, is answered with \<open>X-Cache: HIT\<close> and the same stats. The second answer is the
  stored one: it is the same for every data set and every parser, and the cache is left
  as it was.
\<close>

theorem repeated_query_miss_then_hit:
  assumes "load_data e = Inr df"
    and "cache (cache_key location sensor start_date end_date) = None"
    and "cache_key location' sensor' start_date' end_date'
           = cache_key location sensor start_date end_date"
  shows "\<exists>p cache'.
     stats e cache location sensor start_date end_date
       = (Inr \<lparr>content = p, x_cache_header = MISS\<rparr>, cache')
     \<and> cache' = cache(cache_key location sensor start_date end_date \<mapsto> p)
     \<and> (\<forall>e'. stats e' cache' location' sensor' start_date' end_date'
                = (Inr \<lparr>content = p, x_cache_header = HIT\<rparr>, cache'))"
proof -
  let ?k = "cache_key location sensor start_date end_date"
  let ?p = "Payload (compute_stats (filter_readings e df location sensor start_date end_date))"
  have first: "stats e cache location sensor start_date end_date
                 = (Inr \<lparr>content = ?p, x_cache_header = MISS\<rparr>, cache(?k \<mapsto> ?p))"
    using assms(1,2) stats_miss[where cache = cache and e = e and df = df] by simp
  have stored: "(cache(?k \<mapsto> ?p)) (cache_key location' sensor' start_date' end_date') = Some ?p"
    using assms(3) by simp
  have second: "stats e' (cache(?k \<mapsto> ?p)) location' sensor' start_date' end_date'
                  = (Inr \<lparr>content = ?p, x_cache_header = HIT\<rparr>, cache(?k \<mapsto> ?p))" for e'
    using stored by (rule stats_hit)
  from first second show ?thesis by blast
qed

theorem repeated_query_miss_then_hit_witness:
  "load_data (pandas sensors) = Inr sensors_table
   \<and> Map.empty (cache_key (Some ''Building A'') (Some ''temp'') None None) = None
   \<and> cache_key (Some ''building a  '') (Some ''TEMP'') None None
       = cache_key (Some ''Building A'') (Some ''temp'') None None
   \<and> (\<exists>p cache'.
         stats (pandas sensors) Map.empty (Some ''Building A'') (Some ''temp'') None None
           = (Inr \<lparr>content = p, x_cache_header = MISS\<rparr>, cache')
         \<and> stats (pandas sensors) cache' (Some ''building a  '') (Some ''TEMP'') None None
           = (Inr \<lparr>content = p, x_cache_header = HIT\<rparr>, cache'))"
proof -
  have k: "Map.empty (cache_key (Some ''Building A'') (Some ''temp'') None None) = None"
    by simp
  have same: "cache_key (Some ''building a  '') (Some ''TEMP'') None None
                = cache_key (Some ''Building A'') (Some ''temp'') None None"
    by (simp add: cache_key_def norm_key_def norm_examples)
  from repeated_query_miss_then_hit[OF load_sensors k same]
  show ?thesis using load_sensors k same by blast
qed

text \<open>
  C4. The time window is inclusive at both ends. A reading that passes the location and
  sensor filters and whose timestamp equals the parsed \<open>start_date\<close> is kept, provided it
  is not after the end bound when there is one; likewise a reading whose timestamp
  equals the parsed \<open>end_date\<close>, provided it is not before the start bound.
\<close>

theorem time_window_is_inclusive:
  assumes "r \<in> set (filter_readings e df location sensor None None)"
  shows "(parse_iso e start_date = Some (timestamp r)
            \<and> (\<forall>b. parse_iso e end_date = Some b \<longrightarrow> timestamp r \<le> b)
          \<longrightarrow> r \<in> set (filter_readings e df location sensor start_date end_date))
       \<and> (parse_iso e end_date = Some (timestamp r)
            \<and> (\<forall>a. parse_iso e start_date = Some a \<longrightarrow> a \<le> timestamp r)
          \<longrightarrow> r \<in> set (filter_readings e df location sensor start_date end_date))"
proof -
  have "r \<in> set (filter_readings e df location sensor start_date end_date)
          \<longleftrightarrow> (case parse_iso e start_date of None \<Rightarrow> True | Some a \<Rightarrow> a \<le> timestamp r)
              \<and> (case parse_iso e end_date of None \<Rightarrow> True | Some b \<Rightarrow> timestamp r \<le> b)"
    using assms filter_readings_bounds[of e df location sensor start_date end_date] by simp
  then show ?thesis by (auto split: option.splits)
qed

theorem time_window_is_inclusive_witness:
  "rd 1704067200 ''Building A'' ''temp'' 10 ''building a'' ''temp''
     \<in> set (filter_readings (pandas sensors) sensors_table None (Some ''temp'') None None)
   \<and> parse_iso (pandas sensors) (Some ''2024-01-01T00:00:00Z'') = Some 1704067200
   \<and> parse_iso (pandas sensors) (Some ''2024-01-31'') = Some 1706659200
   \<and> rd 1704067200 ''Building A'' ''temp'' 10 ''building a'' ''temp''
     \<in> set (filter_readings (pandas sensors) sensors_table None (Some ''temp'')
              (Some ''2024-01-01T00:00:00Z'') (Some ''2024-01-31''))"
proof -
  let ?r = "rd 1704067200 ''Building A'' ''temp'' 10 ''building a'' ''temp''"
  have m: "?r \<in> set (filter_readings (pandas sensors) sensors_table None (Some ''temp'')
                       None None)"
    by (simp add: filter_readings_def parse_iso_def sensors_table_def rd_def norm_examples)
  have s: "parse_iso (pandas sensors) (Some ''2024-01-01T00:00:00Z'') = Some 1704067200"
    by (simp add: parse_iso_def pandas_def iso_examples)
  have t: "parse_iso (pandas sensors) (Some ''2024-01-31'') = Some 1706659200"
    by (simp add: parse_iso_def pandas_def iso_examples)
  have ts: "timestamp ?r = 1704067200" by (simp add: rd_def)
  from time_window_is_inclusive[OF m, of "Some ''2024-01-01T00:00:00Z''" "Some ''2024-01-31''"]
  have "?r \<in> set (filter_readings (pandas sensors) sensors_table None (Some ''temp'')
              (Some ''2024-01-01T00:00:00Z'') (Some ''2024-01-31''))"
    using s t ts by simp
  with m s t show ?thesis by blast
qed

text \<open>
  C8. A \<open>start_date\<close> or \<open>end_date\<close> that does not parse to a timestamp does not reject
  the request: the handler answers whenever the table loads, and the readings it keeps
  are those it keeps without that bound.
\<close>

theorem unparseable_date_is_no_constraint:
  assumes "\<forall>t. pd_to_datetime e s \<noteq> Timestamp t"
    and "load_data e = Inr df"
  shows "filter_readings e df location sensor (Some s) end_date
           = filter_readings e df location sensor None end_date
       \<and> filter_readings e df location sensor start_date (Some s)
           = filter_readings e df location sensor start_date None
       \<and> (\<exists>resp cache'. stats e cache location sensor (Some s) end_date = (Inr resp, cache')
             \<and> (cache (cache_key location sensor (Some s) end_date) = None \<longrightarrow>
                  content resp
                    = Payload (compute_stats (filter_readings e df location sensor None end_date))))
       \<and> (\<exists>resp cache'. stats e cache location sensor start_date (Some s) = (Inr resp, cache')
             \<and> (cache (cache_key location sensor start_date (Some s)) = None \<longrightarrow>
                  content resp
                    = Payload (compute_stats (filter_readings e df location sensor start_date None))))"
proof -
  have p: "parse_iso e (Some s) = None"
    using assms(1) by (rule parse_iso_unparseable)
  have n: "parse_iso e None = None" by (simp add: parse_iso_def)
  have f1: "filter_readings e df location sensor (Some s) end_date
              = filter_readings e df location sensor None end_date"
    by (simp add: filter_readings_matches criteria_of_def p n)
  have f2: "filter_readings e df location sensor start_date (Some s)
              = filter_readings e df location sensor start_date None"
    by (simp add: filter_readings_matches criteria_of_def p n)
  have a: "\<exists>resp cache'. stats e c l sn sd ed = (Inr resp, cache')
             \<and> (c (cache_key l sn sd ed) = None \<longrightarrow>
                  content resp = Payload (compute_stats (filter_readings e df l sn sd ed)))"
    for c l sn sd ed
  proof (cases "c (cache_key l sn sd ed)")
    case None
    then show ?thesis
      using assms(2) stats_miss[where cache = c and e = e and df = df] by simp
  next
    case (Some q)
    then show ?thesis using stats_hit[where cache = c] by simp
  qed
  from a[of cache location sensor "Some s" end_date] a[of cache location sensor start_date "Some s"]
  show ?thesis using f1 f2 by simp
qed

theorem unparseable_date_is_no_constraint_witness:
  "(\<forall>t. pd_to_datetime (pandas sensors) ''not-a-date'' \<noteq> Timestamp t)
   \<and> load_data (pandas sensors) = Inr sensors_table
   \<and> filter_readings (pandas sensors) sensors_table (Some ''Building B'') None
        (Some ''not-a-date'') None
       = filter_readings (pandas sensors) sensors_table (Some ''Building B'') None None None
   \<and> (\<exists>resp cache'.
         stats (pandas sensors) Map.empty (Some ''Building B'') None (Some ''not-a-date'') None
           = (Inr resp, cache')
         \<and> content resp = Payload \<lparr>count = 1, avg = Some 55.5, min_value = Some 55.5,
                                    max_value = Some 55.5\<rparr>)"
proof -
  let ?e = "pandas sensors"
  have u: "\<forall>t. pd_to_datetime ?e ''not-a-date'' \<noteq> Timestamp t"
    by (simp add: pandas_def iso_examples)
  have k: "Map.empty (cache_key (Some ''Building B'') None (Some ''not-a-date'') None) = None"
    by simp
  have v: "compute_stats (filter_readings ?e sensors_table (Some ''Building B'') None None None)
             = \<lparr>count = 1, avg = Some 55.5, min_value = Some 55.5, max_value = Some 55.5\<rparr>"
    by (simp add: filter_readings_def parse_iso_def sensors_table_def rd_def norm_examples
        compute_stats_def)
  from unparseable_date_is_no_constraint[OF u load_sensors,
      where location = "Some ''Building B''" and sensor = None and start_date = None
        and end_date = None and cache = Map.empty]
  show ?thesis using u load_sensors k v by auto
qed

section \<open>Claims about the load\<close>

text \<open>The handler reads the environment through \<open>load_data\<close> and the date parser only.\<close>

lemma stats_cong_env:
  assumes "load_data e' = load_data e" and "pd_to_datetime e' = pd_to_datetime e"
  shows "stats e' cache location sensor start_date end_date
           = stats e cache location sensor start_date end_date"
proof -
  have "parse_iso e' d = parse_iso e d" for d
    by (simp add: parse_iso_def assms(2) split: option.splits)
  then have "filter_readings e' df location sensor start_date end_date
               = filter_readings e df location sensor start_date end_date" for df
    by (simp add: filter_readings_def)
  then show ?thesis
    by (simp add: stats_def Let_def assms(1) split: option.splits sum.splits)
qed

text \<open>
  C6. When a required column is absent from the source, \<open>load_data\<close> raises the schema
  error that names the missing columns. Nothing catches it: a query that is not served
  from the cache ends with that error and stores nothing, so from the empty cache the
  process starts with, every request of every sequence ends with it.
\<close>

theorem missing_column_is_fatal:
  assumes "c \<in> required" and "c \<notin> set (columns (sensors_csv e))"
  shows "load_data e = Inl (ValueError (required - set (columns (sensors_csv e))))
       \<and> c \<in> required - set (columns (sensors_csv e))
       \<and> (\<forall>cache location sensor start_date end_date.
             cache (cache_key location sensor start_date end_date) = None \<longrightarrow>
             stats e cache location sensor start_date end_date
               = (Inl (ValueError (required - set (columns (sensors_csv e)))), cache))
       \<and> (\<forall>reqs. serve e Map.empty reqs
             = (map (\<lambda>_. Inl (ValueError (required - set (columns (sensors_csv e))))) reqs,
                Map.empty))"
proof -
  let ?err = "ValueError (required - set (columns (sensors_csv e)))"
  have l: "load_data e = Inl ?err"
    using assms by (auto simp: load_data_rowwise)
  have s: "stats e cache location sensor start_date end_date = (Inl ?err, cache)"
    if "cache (cache_key location sensor start_date end_date) = None"
    for cache location sensor start_date end_date
    using that l by (rule stats_miss_error)
  have "serve e Map.empty reqs = (map (\<lambda>_. Inl ?err) reqs, Map.empty)" for reqs
  proof (induction reqs)
    case Nil
    show ?case by simp
  next
    case (Cons q reqs)
    obtain location sensor start_date end_date where q: "q = (location, sensor, start_date, end_date)"
      by (cases q) auto
    have "stats e Map.empty location sensor start_date end_date = (Inl ?err, Map.empty)"
      by (rule s) simp
    then show ?case using Cons q by simp
  qed
  with l s assms show ?thesis by blast
qed

theorem missing_column_is_fatal_witness:
  "''value'' \<in> required \<and> ''value'' \<notin> set (columns (sensors_csv (pandas sensors_no_value)))
   \<and> load_data (pandas sensors_no_value) = Inl (ValueError {''value''})
   \<and> serve (pandas sensors_no_value) Map.empty
        [(None, None, None, None), (None, Some ''temp'', None, None)]
       = ([Inl (ValueError {''value''}), Inl (ValueError {''value''})], Map.empty)"
proof -
  let ?e = "pandas sensors_no_value"
  have a: "''value'' \<in> required" by (simp add: required_def)
  have b: "''value'' \<notin> set (columns (sensors_csv ?e))"
    by (simp add: pandas_def sensors_no_value_def)
  have m: "required - set (columns (sensors_csv ?e)) = {''value''}"
    by (auto simp: required_def pandas_def sensors_no_value_def)
  from missing_column_is_fatal[OF a b]
  have l: "load_data ?e = Inl (ValueError (required - set (columns (sensors_csv ?e))))"
    and sv: "\<forall>reqs. serve ?e Map.empty reqs
           = (map (\<lambda>_. Inl (ValueError (required - set (columns (sensors_csv ?e))))) reqs,
              Map.empty)"
    by blast+
  from sv[rule_format, of "[(None, None, None, None), (None, Some ''temp'', None, None)]"]
  show ?thesis using a b l unfolding m by (simp del: serve.simps)
qed

text \<open>
  C7. After a successful load every reading of the table comes from a source row whose
  timestamp cell parsed to the reading's instant and whose value cell parsed to the
  reading's number. The rows with an unparseable timestamp or a non-numeric value are
  left out and no others, so the table has as many readings as the source has rows less
  the excluded ones; and removing the excluded rows from the source changes no answer
  of the handler.
\<close>

theorem load_keeps_exactly_the_valid_rows:
  assumes "load_data e = Inr df"
  shows "(\<forall>x \<in> set df. \<exists>r \<in> set (rows (sensors_csv e)). \<exists>s v.
            timestamp_cell r = Some s \<and> pd_to_datetime e s = Timestamp (timestamp x)
            \<and> value_cell r = Some v \<and> pd_to_numeric e v = Some (value x))
       \<and> length df = length (rows (sensors_csv e))
                       - length (filter (excluded e) (rows (sensors_csv e)))
       \<and> (\<forall>cache location sensor start_date end_date.
             stats (e\<lparr>sensors_csv := (sensors_csv e)
                        \<lparr>rows := filter (\<lambda>r. \<not> excluded e r) (rows (sensors_csv e))\<rparr>\<rparr>)
               cache location sensor start_date end_date
             = stats e cache location sensor start_date end_date)"
proof -
  let ?rows = "rows (sensors_csv e)"
  let ?e' = "e\<lparr>sensors_csv := (sensors_csv e)\<lparr>rows := filter (\<lambda>r. \<not> excluded e r) ?rows\<rparr>\<rparr>"
  from assms have cols: "required \<subseteq> set (columns (sensors_csv e))"
    by (simp add: load_data_rowwise split: if_splits)
  from assms have df: "df = List.map_filter (load_row e) ?rows"
    by (simp add: load_data_rowwise split: if_splits)
  have valid: "\<forall>x \<in> set df. \<exists>r \<in> set ?rows. \<exists>s v.
            timestamp_cell r = Some s \<and> pd_to_datetime e s = Timestamp (timestamp x)
            \<and> value_cell r = Some v \<and> pd_to_numeric e v = Some (value x)"
  proof
    fix x assume "x \<in> set df"
    then obtain r where r: "r \<in> set ?rows" "load_row e r = Some x"
      unfolding df set_map_filter by blast
    from load_row_Some[OF r(2)] r(1)
    show "\<exists>r \<in> set ?rows. \<exists>s v.
            timestamp_cell r = Some s \<and> pd_to_datetime e s = Timestamp (timestamp x)
            \<and> value_cell r = Some v \<and> pd_to_numeric e v = Some (value x)"
      by blast
  qed
  have "length df + length (filter (excluded e) ?rows) = length ?rows"
    using length_map_filter[of "load_row e" ?rows] by (simp add: df load_row_None_iff)
  then have len: "length df = length ?rows - length (filter (excluded e) ?rows)"
    by simp
  have "to_datetime_coerce ?e' c = to_datetime_coerce e c" for c
    by (simp add: to_datetime_coerce_def split: option.splits)
  moreover have "to_numeric_coerce ?e' c = to_numeric_coerce e c" for c
    by (simp add: to_numeric_coerce_def split: option.splits)
  ultimately have "load_row ?e' r = load_row e r" for r
    by (simp add: load_row_def split: option.splits)
  then have row': "load_row ?e' = load_row e" by (rule ext)
  have "List.map_filter (load_row e) (filter (\<lambda>r. load_row e r \<noteq> None) ?rows) = df"
    unfolding df by (rule map_filter_drop_None)
  then have "List.map_filter (load_row e) (filter (\<lambda>r. \<not> excluded e r) ?rows) = df"
    by (simp add: load_row_None_iff)
  then have "load_data ?e' = Inr df"
    using cols by (simp add: load_data_rowwise row')
  then have "load_data ?e' = load_data e" using assms by simp
  moreover have "pd_to_datetime ?e' = pd_to_datetime e" by simp
  ultimately have same: "stats ?e' cache location sensor start_date end_date
      = stats e cache location sensor start_date end_date"
    for cache location sensor start_date end_date
    by (rule stats_cong_env)
  from valid len same show ?thesis by blast
qed

theorem load_keeps_exactly_the_valid_rows_witness:
  "load_data (pandas sensors) = Inr sensors_table
   \<and> filter (excluded (pandas sensors)) (rows (sensors_csv (pandas sensors)))
       = [row ''not-a-date'' ''Building A'' ''temp'' ''1'',
          row ''2024-01-20T00:00:00Z'' ''Building A'' ''temp'' ''abc'']
   \<and> length (rows (sensors_csv (pandas sensors))) = 7
   \<and> length sensors_table = 5"
proof -
  let ?e = "pandas sensors"
  have x: "filter (excluded ?e) (rows (sensors_csv ?e))
       = [row ''not-a-date'' ''Building A'' ''temp'' ''1'',
          row ''2024-01-20T00:00:00Z'' ''Building A'' ''temp'' ''abc'']"
    by (simp add: pandas_def sensors_def row_def excluded_def to_datetime_coerce_def
        to_numeric_coerce_def iso_examples decimal_examples)
  have n: "length (rows (sensors_csv ?e)) = 7"
    by (simp add: pandas_def sensors_def)
  from load_keeps_exactly_the_valid_rows[OF load_sensors]
  have "length sensors_table
          = length (rows (sensors_csv ?e)) - length (filter (excluded ?e) (rows (sensors_csv ?e)))"
    by blast
  then have "length sensors_table = 5" unfolding x n by simp
  with load_sensors x n show ?thesis by blast
qed

section \<open>Claims about date-only bounds and blank parameters\<close>

lemma parse_date_midnight:
  assumes "parse_date d = Some day"
  shows "iso_to_datetime d = Timestamp (86400 * day)" and "d \<noteq> []"
proof -
  from assms have len: "length d = 10"
    by (simp add: parse_date_def split: if_splits)
  then show "iso_to_datetime d = Timestamp (86400 * day)"
    using assms by (simp add: iso_to_datetime_def)
  from len show "d \<noteq> []" by auto
qed

text \<open>
  C5, as amended. With pandas' convention for a date without a time (the fragment
  \<open>iso_to_datetime\<close>), a date-only \<open>start_date\<close> or \<open>end_date\<close> is the first instant of
  that UTC day, for either bound: \<open>start_date\<close> keeps the readings at or after it,
  \<open>end_date\<close> the readings at or before it.
\<close>

theorem date_only_bound_is_start_of_day:
  assumes "pd_to_datetime e = iso_to_datetime" and "parse_date d = Some day"
  shows "parse_iso e (Some d) = Some (86400 * day)
       \<and> filter_readings e df location sensor (Some d) None
           = filter (\<lambda>r. 86400 * day \<le> timestamp r) (filter_readings e df location sensor None None)
       \<and> filter_readings e df location sensor None (Some d)
           = filter (\<lambda>r. timestamp r \<le> 86400 * day) (filter_readings e df location sensor None None)"
proof -
  have p: "parse_iso e (Some d) = Some (86400 * day)"
    using parse_date_midnight[OF assms(2)] assms(1) by (simp add: parse_iso_def)
  have n: "parse_iso e None = None" by (simp add: parse_iso_def)
  have "filter_readings e df location sensor (Some d) None
          = filter (\<lambda>r. 86400 * day \<le> timestamp r) (filter_readings e df location sensor None None)"
    using filter_readings_bounds[of e df location sensor "Some d" None] by (simp add: p n)
  moreover have "filter_readings e df location sensor None (Some d)
          = filter (\<lambda>r. timestamp r \<le> 86400 * day) (filter_readings e df location sensor None None)"
    using filter_readings_bounds[of e df location sensor None "Some d"] by (simp add: p n)
  ultimately show ?thesis using p by simp
qed

theorem date_only_bound_is_start_of_day_witness:
  "pd_to_datetime (pandas sensors) = iso_to_datetime
   \<and> parse_date ''2024-01-31'' = Some 19753
   \<and> parse_iso (pandas sensors) (Some ''2024-01-31'') = Some 1706659200
   \<and> map value (filter_readings (pandas sensors) sensors_table None None None
                  (Some ''2024-01-31'')) = [10, 20, 30]
   \<and> map value (filter_readings (pandas sensors) sensors_table None None
                  (Some ''2024-01-31'') None) = [30, 55.5, 40]"
proof -
  let ?e = "pandas sensors"
  have a: "pd_to_datetime ?e = iso_to_datetime" by (simp add: pandas_def)
  have b: "parse_date ''2024-01-31'' = Some 19753"
    by (simp add: parse_date_def digit_def days_in_month_def leap_year_def days_from_civil_def)
  have all: "filter_readings ?e sensors_table None None None None = sensors_table"
    by (simp add: filter_readings_def parse_iso_def)
  from date_only_bound_is_start_of_day[OF a b, of sensors_table None None]
  have "parse_iso ?e (Some ''2024-01-31'') = Some 1706659200"
    and "filter_readings ?e sensors_table None None None (Some ''2024-01-31'')
           = filter (\<lambda>r. timestamp r \<le> 1706659200) sensors_table"
    and "filter_readings ?e sensors_table None None (Some ''2024-01-31'') None
           = filter (\<lambda>r. 1706659200 \<le> timestamp r) sensors_table"
    unfolding all by simp_all
  then show ?thesis using a b by (simp add: sensors_table_def rd_def)
qed

text \<open>
  C5 as stated fails: the reading of 2024-01-31T12:00:00Z is in the table and a query
  with \<open>end_date = 2024-01-31\<close> leaves it out.
\<close>

theorem end_date_only_excludes_rest_of_day:
  "load_data (pandas sensors) = Inr sensors_table
   \<and> rd 1706702400 ''Building B'' ''temp'' 55.5 ''building b'' ''temp'' \<in> set sensors_table
   \<and> iso_to_datetime ''2024-01-31T12:00:00Z'' = Timestamp 1706702400
   \<and> rd 1706702400 ''Building B'' ''temp'' 55.5 ''building b'' ''temp''
       \<notin> set (filter_readings (pandas sensors) sensors_table None None None (Some ''2024-01-31''))
   \<and> fst (stats (pandas sensors) Map.empty None None None (Some ''2024-01-31''))
       = Inr \<lparr>content = Payload \<lparr>count = 3, avg = Some 20, min_value = Some 10,
                                  max_value = Some 30\<rparr>,
              x_cache_header = MISS\<rparr>"
proof -
  let ?e = "pandas sensors"
  have p: "parse_iso ?e (Some ''2024-01-31'') = Some 1706659200"
    by (simp add: parse_iso_def pandas_def iso_examples)
  have f: "filter_readings ?e sensors_table None None None (Some ''2024-01-31'')
             = [rd 1704067200 ''Building A'' ''temp'' 10 ''building a'' ''temp'',
                rd 1705320000 ''Building A'' ''temp'' 20 ''building a'' ''temp'',
                rd 1706659200 '' building a'' ''Temp '' 30 ''building a'' ''temp'']"
    by (simp add: filter_readings_def p) (simp add: parse_iso_def sensors_table_def rd_def)
  have c: "compute_stats (filter_readings ?e sensors_table None None None (Some ''2024-01-31''))
             = \<lparr>count = 3, avg = Some 20, min_value = Some 10, max_value = Some 30\<rparr>"
    unfolding f by (simp add: compute_stats_def rd_def)
  have k: "Map.empty (cache_key None None None (Some ''2024-01-31'')) = None" by simp
  have s: "fst (stats ?e Map.empty None None None (Some ''2024-01-31''))
       = Inr \<lparr>content = Payload \<lparr>count = 3, avg = Some 20, min_value = Some 10,
                                  max_value = Some 30\<rparr>,
              x_cache_header = MISS\<rparr>"
    using stats_miss[OF k load_sensors] c by simp
  have m: "rd 1706702400 ''Building B'' ''temp'' 55.5 ''building b'' ''temp'' \<in> set sensors_table"
    by (simp add: sensors_table_def)
  have n: "rd 1706702400 ''Building B'' ''temp'' 55.5 ''building b'' ''temp''
       \<notin> set (filter_readings ?e sensors_table None None None (Some ''2024-01-31''))"
    unfolding f by (simp add: rd_def)
  show ?thesis using load_sensors m iso_examples(4) n s by blast
qed

lemma filter_readings_text:
  assumes "text_criterion location' = text_criterion location"
    and "text_criterion sensor' = text_criterion sensor"
  shows "filter_readings e df location' sensor' start_date end_date
           = filter_readings e df location sensor start_date end_date"
  using assms by (simp add: filter_readings_matches criteria_of_def)

lemma stats_cong_request:
  assumes "cache_key location' sensor' start_date' end_date'
             = cache_key location sensor start_date end_date"
    and "\<And>df. filter_readings e df location' sensor' start_date' end_date'
             = filter_readings e df location sensor start_date end_date"
  shows "stats e cache location' sensor' start_date' end_date'
           = stats e cache location sensor start_date end_date"
  using assms by (simp add: stats_def Let_def split: option.splits sum.splits)

text \<open>
  C9, as amended. Two \<open>location\<close> strings, or two \<open>sensor\<close> strings, that are equal
  after trimming and case-folding and are both non-empty or both empty give the same
  cache key and the same answer, in every state of the cache.
\<close>

theorem respelled_filter_same_answer:
  assumes "lower (strip a) = lower (strip b)" and "a = [] \<longleftrightarrow> b = []"
  shows "cache_key (Some a) sensor start_date end_date
           = cache_key (Some b) sensor start_date end_date
       \<and> stats e cache (Some a) sensor start_date end_date
           = stats e cache (Some b) sensor start_date end_date
       \<and> cache_key location (Some a) start_date end_date
           = cache_key location (Some b) start_date end_date
       \<and> stats e cache location (Some a) start_date end_date
           = stats e cache location (Some b) start_date end_date"
proof -
  have t: "text_criterion (Some a) = text_criterion (Some b)"
    using assms by (auto simp: text_criterion_def)
  have n: "norm_key (Some a) = norm_key (Some b)"
    using assms(1) by (simp add: norm_key_def)
  have k1: "cache_key (Some a) sensor start_date end_date
              = cache_key (Some b) sensor start_date end_date"
    using n by (simp add: cache_key_def)
  have k2: "cache_key location (Some a) start_date end_date
              = cache_key location (Some b) start_date end_date"
    using n by (simp add: cache_key_def)
  have s1: "stats e cache (Some a) sensor start_date end_date
              = stats e cache (Some b) sensor start_date end_date"
    using k1 filter_readings_text[OF t refl] by (rule stats_cong_request)
  have s2: "stats e cache location (Some a) start_date end_date
              = stats e cache location (Some b) start_date end_date"
    using k2 filter_readings_text[OF refl t] by (rule stats_cong_request)
  from k1 s1 k2 s2 show ?thesis by simp
qed

theorem respelled_filter_same_answer_witness:
  "lower (strip ''Building A'') = lower (strip ''building a  '')
   \<and> (''Building A'' = [] \<longleftrightarrow> ''building a  '' = [])
   \<and> cache_key (Some ''Building A'') None None None
       = cache_key (Some ''building a  '') None None None
   \<and> stats (pandas sensors) Map.empty (Some ''Building A'') None None None
       = stats (pandas sensors) Map.empty (Some ''building a  '') None None None"
proof -
  have a: "lower (strip ''Building A'') = lower (strip ''building a  '')"
    by (simp add: norm_examples)
  have b: "''Building A'' = [] \<longleftrightarrow> ''building a  '' = []" by simp
  from respelled_filter_same_answer[OF a b, of None None None "pandas sensors" Map.empty]
  show ?thesis using a b by blast
qed

text \<open>
  C9 as stated fails: the empty string and a single space are equal after trimming and
  case-folding, and the two queries, each computed on its own, get different answers.
\<close>

theorem empty_and_blank_location_differ:
  "lower (strip []) = lower (strip '' '')
   \<and> fst (stats (pandas sensors) Map.empty (Some []) None None None)
       = Inr \<lparr>content = Payload \<lparr>count = 5, avg = Some 31.1, min_value = Some 10,
                                  max_value = Some 55.5\<rparr>,
              x_cache_header = MISS\<rparr>
   \<and> fst (stats (pandas sensors) Map.empty (Some '' '') None None None)
       = Inr \<lparr>content = Payload \<lparr>count = 1, avg = Some 40, min_value = Some 40,
                                  max_value = Some 40\<rparr>,
              x_cache_header = MISS\<rparr>"
proof -
  let ?e = "pandas sensors"
  have a: "lower (strip []) = lower (strip '' '')" by (simp add: norm_examples)
  have c1: "compute_stats (filter_readings ?e sensors_table (Some []) None None None)
              = \<lparr>count = 5, avg = Some 31.1, min_value = Some 10, max_value = Some 55.5\<rparr>"
    by (simp add: filter_readings_def parse_iso_def sensors_table_def rd_def compute_stats_def)
  have c2: "compute_stats (filter_readings ?e sensors_table (Some '' '') None None None)
              = \<lparr>count = 1, avg = Some 40, min_value = Some 40, max_value = Some 40\<rparr>"
    by (simp add: filter_readings_def parse_iso_def sensors_table_def rd_def compute_stats_def
        norm_examples)
  have k1: "Map.empty (cache_key (Some []) None None None) = None" by simp
  have k2: "Map.empty (cache_key (Some '' '') None None None) = None" by simp
  show ?thesis
    using a stats_miss[OF k1 load_sensors] stats_miss[OF k2 load_sensors] c1 c2 by simp
qed

lemma strip_blank: "list_all isspace w \<Longrightarrow> lower (strip w) = []"
  by (simp add: strip_def lstrip_all_space rstrip_def lower_def)

lemma serve_two:
  assumes "stats e cache location sensor start_date end_date = (out, cache')"
    and "stats e cache' location' sensor' start_date' end_date' = (out', cache'')"
  shows "serve e cache [(location, sensor, start_date, end_date),
                        (location', sensor', start_date', end_date')]
           = ([out, out'], cache'')"
  using assms by simp

text \<open>
  What holds of a blank parameter: a non-empty \<open>location\<close> or \<open>sensor\<close> made of
  whitespace only is a constraint, on the empty normalised text, and its component of
  the cache key is the empty string, not the absent marker.
\<close>

lemma blank_parameter_is_a_constraint:
  assumes "w \<noteq> []" and "list_all isspace w"
  shows "filter_readings e df (Some w) sensor start_date end_date
           = filter (\<lambda>r. location_norm r = [])
               (filter_readings e df None sensor start_date end_date)"
    and "filter_readings e df location (Some w) start_date end_date
           = filter (\<lambda>r. sensor_norm r = [])
               (filter_readings e df location None start_date end_date)"
    and "cache_key (Some w) sensor start_date end_date
           = (Some [], norm_key sensor, norm_key start_date, norm_key end_date)"
    and "cache_key location (Some w) start_date end_date
           = (norm_key location, Some [], norm_key start_date, norm_key end_date)"
    and "norm_key (Some w) \<noteq> norm_key None"
  using assms
  by (auto simp add: filter_readings_matches criteria_of_def matches_def text_criterion_def
      strip_blank cache_key_def norm_key_def split: option.splits intro!: filter_cong)

text \<open>
  C10 on the code. The key of an empty parameter is the empty string as well, not the
  absent marker: \<open>location=\<close> and \<open>location=%20\<close> share one cache key although the
  first is no constraint and the second is one. Served after the first, the second is
  answered from the cache with the unfiltered stats; computed on its own it keeps the
  one reading whose location is blank.
\<close>

theorem blank_location_answered_from_entry_of_empty_location:
  "cache_key (Some []) None None None = (Some [], None, None, None)
   \<and> cache_key (Some '' '') None None None = cache_key (Some []) None None None
   \<and> cache_key None None None None = (None, None, None, None)
   \<and> fst (serve (pandas sensors) Map.empty
             [(Some [], None, None, None), (Some '' '', None, None, None)])
       = [Inr \<lparr>content = Payload \<lparr>count = 5, avg = Some 31.1, min_value = Some 10,
                                   max_value = Some 55.5\<rparr>,
               x_cache_header = MISS\<rparr>,
          Inr \<lparr>content = Payload \<lparr>count = 5, avg = Some 31.1, min_value = Some 10,
                                   max_value = Some 55.5\<rparr>,
               x_cache_header = HIT\<rparr>]
   \<and> fst (stats (pandas sensors) Map.empty (Some '' '') None None None)
       = Inr \<lparr>content = Payload \<lparr>count = 1, avg = Some 40, min_value = Some 40,
                                  max_value = Some 40\<rparr>,
              x_cache_header = MISS\<rparr>"
proof -
  let ?e = "pandas sensors"
  let ?all = "Payload \<lparr>count = 5, avg = Some 31.1, min_value = Some 10, max_value = Some 55.5\<rparr>"
  have ke: "cache_key (Some []) None None None = (Some [], None, None, None)"
    by (simp add: cache_key_def norm_key_def norm_examples)
  have kb: "cache_key (Some '' '') None None None = cache_key (Some []) None None None"
    by (simp add: cache_key_def norm_key_def norm_examples)
  have kn: "cache_key None None None None = (None, None, None, None)"
    by (simp add: cache_key_def norm_key_def)
  have c1: "compute_stats (filter_readings ?e sensors_table (Some []) None None None)
              = \<lparr>count = 5, avg = Some 31.1, min_value = Some 10, max_value = Some 55.5\<rparr>"
    by (simp add: filter_readings_def parse_iso_def sensors_table_def rd_def compute_stats_def)
  have c2: "compute_stats (filter_readings ?e sensors_table (Some '' '') None None None)
              = \<lparr>count = 1, avg = Some 40, min_value = Some 40, max_value = Some 40\<rparr>"
    by (simp add: filter_readings_def parse_iso_def sensors_table_def rd_def compute_stats_def
        norm_examples)
  have k1: "Map.empty (cache_key (Some []) None None None) = None" by simp
  have k2: "Map.empty (cache_key (Some '' '') None None None) = None" by simp
  have first: "stats ?e Map.empty (Some []) None None None
      = (Inr \<lparr>content = ?all, x_cache_header = MISS\<rparr>,
         [cache_key (Some []) None None None \<mapsto> ?all])"
    using stats_miss[OF k1 load_sensors] c1 by simp
  have "[cache_key (Some []) None None None \<mapsto> ?all] (cache_key (Some '' '') None None None)
          = Some ?all"
    using kb by simp
  then have second: "stats ?e [cache_key (Some []) None None None \<mapsto> ?all]
                       (Some '' '') None None None
      = (Inr \<lparr>content = ?all, x_cache_header = HIT\<rparr>,
         [cache_key (Some []) None None None \<mapsto> ?all])"
    by (rule stats_hit)
  have sv: "fst (serve ?e Map.empty [(Some [], None, None, None), (Some '' '', None, None, None)])
       = [Inr \<lparr>content = ?all, x_cache_header = MISS\<rparr>,
          Inr \<lparr>content = ?all, x_cache_header = HIT\<rparr>]"
    using serve_two[OF first second] by (simp del: serve.simps)
  have alone: "fst (stats ?e Map.empty (Some '' '') None None None)
       = Inr \<lparr>content = Payload \<lparr>count = 1, avg = Some 40, min_value = Some 40,
                                  max_value = Some 40\<rparr>,
              x_cache_header = MISS\<rparr>"
    using stats_miss[OF k2 load_sensors] c2 by simp
  from ke kb kn sv alone show ?thesis by blast
qed

end
